theory Spec2Isabelle
  imports Main
begin

section \<open>Python objects that flow through the hybrid extension\<close>

text \<open>
  The module \<^verbatim>\<open>lib/sqlalchemy/ext/hybrid.py\<close> is embedded: the descriptor
  \<^verbatim>\<open>hybrid_property\<close>, the helper class \<^verbatim>\<open>Comparator\<close> and its subclass
  \<^verbatim>\<open>ExprComparator\<close>. Objects with identity are referred to by a reference; an
  exception is a value of \<open>exn\<close>, and a computation that may raise returns \<open>exn + 'a\<close>
  with \<open>Inl\<close> for the exception.
\<close>

type_synonym ref = nat

datatype exn =
    AttributeError string
  | TypeError string
  | AssertionError
  | Raised string

text \<open>
  Modelled from the spec: the expression library's objects
  (\<^verbatim>\<open>sqlalchemy.sql.elements.ColumnElement\<close>, objects exposing
  \<^verbatim>\<open>__clause_element__\<close>, \<^verbatim>\<open>sqlalchemy.orm.attributes.QueryableAttribute\<close>) are
  imported by the module and not defined in it. \<open>Column\<close>, \<open>BinaryExpression\<close> and
  \<open>BindParameter\<close> (a literal value bound as a parameter) are the expression nodes
  (instances of \<^verbatim>\<open>ColumnElement\<close>); \<open>ClauseHolder x\<close> is an
  object that is not a node and whose \<^verbatim>\<open>__clause_element__()\<close> returns \<open>x\<close>;
  \<open>QueryableAttribute k x\<close> is the mapped attribute of key \<open>k\<close>, whose
  \<^verbatim>\<open>__clause_element__()\<close> returns \<open>x\<close>; the other constructors are native values
  (\<open>PyDict\<close> a dictionary with string keys).
\<close>

datatype pyobj =
    PyNone
  | PyInt int
  | PyStr string
  | PyDict "(string \<times> pyobj) list"
  | Column string
  | BinaryExpression pyobj string pyobj
  | BindParameter pyobj
  | ClauseHolder pyobj
  | QueryableAttribute string pyobj

text \<open>\<^verbatim>\<open>isinstance(x, ColumnElement)\<close>.\<close>

fun is_ColumnElement :: "pyobj \<Rightarrow> bool" where
  "is_ColumnElement (Column _) = True"
| "is_ColumnElement (BinaryExpression _ _ _) = True"
| "is_ColumnElement (BindParameter _) = True"
| "is_ColumnElement _ = False"

text \<open>\<^verbatim>\<open>isinstance(x, attributes.QueryableAttribute)\<close>.\<close>

fun is_QueryableAttribute :: "pyobj \<Rightarrow> bool" where
  "is_QueryableAttribute (QueryableAttribute _ _) = True"
| "is_QueryableAttribute _ = False"

text \<open>
  Modelled from the spec: \<^verbatim>\<open>sql._typing.is_has_clause_element\<close>, the
  clause-extraction capability check (the object has a \<^verbatim>\<open>__clause_element__\<close>
  attribute).
\<close>

fun is_has_clause_element :: "pyobj \<Rightarrow> bool" where
  "is_has_clause_element (ClauseHolder _) = True"
| "is_has_clause_element (QueryableAttribute _ _) = True"
| "is_has_clause_element _ = False"

text \<open>
  The call \<^verbatim>\<open>x.__clause_element__()\<close>; on an object without the attribute Python
  raises \<^verbatim>\<open>AttributeError\<close>.
\<close>

fun clause_element :: "pyobj \<Rightarrow> exn + pyobj" where
  "clause_element (ClauseHolder x) = Inr x"
| "clause_element (QueryableAttribute _ x) = Inr x"
| "clause_element _ = Inl (AttributeError ''__clause_element__'')"

text \<open>\<^verbatim>\<open>typing.TYPE_CHECKING\<close> is \<^verbatim>\<open>False\<close> when the program runs.\<close>

definition TYPE_CHECKING :: bool where
  "TYPE_CHECKING = False"

text \<open>A Python class: its name, its \<^verbatim>\<open>__dict__\<close> and the rest of its
  \<^verbatim>\<open>__mro__\<close> after the class itself. A member of a class \<^verbatim>\<open>__dict__\<close> is a
  hybrid descriptor object, known by its reference, or any other object.\<close>

datatype member = Hybrid ref | OtherMember

datatype pyclass = PyClass (cls_name: string) (cls_dict: "(string \<times> member) list")
  (cls_ancestors: "pyclass list")

definition mro :: "pyclass \<Rightarrow> pyclass list" where
  "mro c = c # cls_ancestors c"

section \<open>Comparator\<close>

record Comparator =
  expression :: pyobj

text \<open>
  \<^verbatim>\<open>Comparator.__clause_element__\<close>. Both \<^verbatim>\<open>assert\<close> statements of the source stand
  under \<^verbatim>\<open>if TYPE_CHECKING:\<close>.
\<close>

definition Comparator_clause_element :: "'a Comparator_scheme \<Rightarrow> exn + pyobj" where
  "Comparator_clause_element self =
     (let expr = expression self in
      if is_has_clause_element expr then
        (case clause_element expr of
           Inl e \<Rightarrow> Inl e
         | Inr ret_expr \<Rightarrow>
             if TYPE_CHECKING \<and> \<not> is_ColumnElement ret_expr then Inl AssertionError
             else Inr ret_expr)
      else if TYPE_CHECKING \<and> \<not> is_ColumnElement expr then Inl AssertionError
      else Inr expr)"

text \<open>\<^verbatim>\<open>Comparator.adapt_to_entity\<close> returns \<^verbatim>\<open>self\<close>.\<close>

definition adapt_to_entity :: "'a Comparator_scheme \<Rightarrow> 'e \<Rightarrow> 'a Comparator_scheme" where
  "adapt_to_entity self adapt_to_entity_arg = self"

section \<open>Callables, effects and the call trace\<close>

text \<open>
  A Python function object: the attributes \<^verbatim>\<open>update_wrapper\<close> reads from it
  (\<^verbatim>\<open>__name__\<close>, \<^verbatim>\<open>__doc__\<close>, and the function's own \<^verbatim>\<open>__dict__\<close>: the
  attributes set on the function), and its body. The body may change the state of the
  program (\<open>'s\<close>: the fields of the instances and whatever else the user's code
  touches) and may raise.
\<close>

record ('a, 'b, 's) pyfunc =
  fn_name :: string
  fn_doc :: "string option"
  fn_dict :: "(string \<times> pyobj) list"
  fn_body :: "'a \<Rightarrow> 's \<Rightarrow> (exn + 'b) \<times> 's"

text \<open>What the getter is called with: an instance, or (on the fallback path) the class.\<close>

datatype 'i receiver = Instance 'i | Class pyclass

text \<open>
  The name a proxy is published under: a string, or the sentinel
  \<^verbatim>\<open>attributes._UNKNOWN_ATTR_KEY\<close>.
\<close>

datatype attr_key = Key string | UNKNOWN_ATTR_KEY

text \<open>
  Every call that leaves the module is recorded, in order: the six callables attached to
  a descriptor, the proxy constructor, and the bulk-update translation of a mapped
  attribute.
\<close>

datatype 'i call =
    Call_fget "'i receiver"
  | Call_fset 'i pyobj
  | Call_fdel 'i
  | Call_expr pyclass
  | Call_custom_comparator pyclass
  | Call_update_expr pyclass pyobj
  | Call_proxy_attr pyclass attr_key ref
  | Call_attr_bulk_update_tuples pyobj pyobj

text \<open>
  A method of the module, run from a state: its result or the exception it raised, the
  state it leaves, and the calls it made.
\<close>

type_synonym ('a, 'i, 's) run = "'s \<Rightarrow> (exn + 'a) \<times> 's \<times> 'i call list"

definition return_run :: "'a \<Rightarrow> ('a, 'i, 's) run" where
  "return_run x = (\<lambda>s. (Inr x, s, []))"

definition raise_run :: "exn \<Rightarrow> ('a, 'i, 's) run" where
  "raise_run e = (\<lambda>s. (Inl e, s, []))"

definition invoke :: "'i call \<Rightarrow> ('s \<Rightarrow> (exn + 'a) \<times> 's) \<Rightarrow> ('a, 'i, 's) run" where
  "invoke ev f = (\<lambda>s. case f s of (r, s') \<Rightarrow> (r, s', [ev]))"

definition bind_run :: "('a, 'i, 's) run \<Rightarrow> ('a \<Rightarrow> ('b, 'i, 's) run) \<Rightarrow> ('b, 'i, 's) run" where
  "bind_run m k = (\<lambda>s. case m s of
       (Inl e, s', tr) \<Rightarrow> (Inl e, s', tr)
     | (Inr x, s', tr) \<Rightarrow> (case k x s' of (r, s'', tr') \<Rightarrow> (r, s'', tr @ tr')))"

text \<open>A callable as the module holds it: name, docstring, and the traced call.\<close>

record ('a, 'b, 'i, 's) callable =
  c_name :: string
  c_doc :: "string option"
  c_call :: "'a \<Rightarrow> ('b, 'i, 's) run"

definition traced :: "('a \<Rightarrow> 'i call) \<Rightarrow> ('a, 'b, 's) pyfunc \<Rightarrow> ('a, 'b, 'i, 's) callable" where
  "traced ev f = \<lparr>c_name = fn_name f, c_doc = fn_doc f,
                  c_call = (\<lambda>a. invoke (ev a) (fn_body f a))\<rparr>"

section \<open>ExprComparator and the proxy\<close>

record ExprComparator = Comparator +
  cls :: pyclass
  hybrid :: ref

text \<open>What a comparator callable returns: a comparator object of the user's, or the
  default \<^verbatim>\<open>ExprComparator\<close>.\<close>

datatype comparator_obj = Custom Comparator | Default ExprComparator

text \<open>
  Modelled from the spec: \<^verbatim>\<open>attributes.create_proxied_attribute\<close> is imported by the
  module and not defined in it. The spec's proxy-construction service, given the owning
  class, the name, the descriptor and the comparator, returns an object that carries
  them.
\<close>

record proxy =
  p_class :: pyclass
  p_key :: attr_key
  p_descriptor :: ref
  p_comparator :: comparator_obj
  p_doc :: "string option"

definition proxy_attr ::
  "pyclass \<Rightarrow> attr_key \<Rightarrow> ref \<Rightarrow> comparator_obj \<Rightarrow> string option \<Rightarrow> (proxy, 'i, 's) run" where
  "proxy_attr owner name descriptor comparator doc =
     (\<lambda>s. (Inr \<lparr>p_class = owner, p_key = name, p_descriptor = descriptor,
                p_comparator = comparator, p_doc = doc\<rparr>, s,
            [Call_proxy_attr owner name descriptor]))"

section \<open>hybrid\_property\<close>

text \<open>
  A descriptor object is its \<^verbatim>\<open>__dict__\<close>: the six attributes \<^verbatim>\<open>__init__\<close>
  assigns; \<^verbatim>\<open>__name__\<close> and \<^verbatim>\<open>__doc__\<close>, which
  \<^verbatim>\<open>update_wrapper(self, fget)\<close> assigns from the getter and the module reads; and
  \<open>other_dict\<close>, every other entry, in the order of insertion: the entries
  \<^verbatim>\<open>update_wrapper\<close> copies from the getter's \<^verbatim>\<open>__dict__\<close>, and the value a
  memoized property of the base class (\<^verbatim>\<open>info\<close>) stores when it is first read.
  The keys of \<open>other_dict\<close> are other than the eight attributes named here: the
  record holds a callable under each of the six, so a getter carrying a function attribute
  named like one of them, which would replace that attribute of the descriptor by an
  arbitrary object, is outside the model.
\<close>

record ('i, 's) hybrid_property =
  fget :: "('i receiver, pyobj, 's) pyfunc"
  fset :: "('i \<times> pyobj, unit, 's) pyfunc option"
  fdel :: "('i, unit, 's) pyfunc option"
  expr :: "(pyclass, pyobj, 's) pyfunc option"
  custom_comparator :: "(pyclass, comparator_obj, 's) pyfunc option"
  update_expr :: "(pyclass \<times> pyobj, (pyobj \<times> pyobj) list, 's) pyfunc option"
  dunder_name :: string
  dunder_doc :: "string option"
  other_dict :: "(string \<times> pyobj) list"

text \<open>The descriptors live in a store; a reference is an index into it, and a new
  object is appended.\<close>

type_synonym ('i, 's) heap = "('i, 's) hybrid_property list"

text \<open>The keyword arguments of \<^verbatim>\<open>hybrid_property.__init__\<close>.\<close>

record ('i, 's) init_kwargs =
  kw_fget :: "('i receiver, pyobj, 's) pyfunc"
  kw_fset :: "('i \<times> pyobj, unit, 's) pyfunc option"
  kw_fdel :: "('i, unit, 's) pyfunc option"
  kw_expr :: "(pyclass, pyobj, 's) pyfunc option"
  kw_custom_comparator :: "(pyclass, comparator_obj, 's) pyfunc option"
  kw_update_expr :: "(pyclass \<times> pyobj, (pyobj \<times> pyobj) list, 's) pyfunc option"

text \<open>\<^verbatim>\<open>hybrid_property.__init__\<close>: the six assignments, then
  \<^verbatim>\<open>util.update_wrapper(self, fget)\<close>, which assigns \<^verbatim>\<open>__name__\<close> and
  \<^verbatim>\<open>__doc__\<close> from the getter and updates \<^verbatim>\<open>self.__dict__\<close> with the getter's
  \<^verbatim>\<open>__dict__\<close>.\<close>

definition hybrid_property_init :: "('i, 's) init_kwargs \<Rightarrow> ('i, 's) hybrid_property" where
  "hybrid_property_init kw =
     \<lparr>fget = kw_fget kw, fset = kw_fset kw, fdel = kw_fdel kw, expr = kw_expr kw,
      custom_comparator = kw_custom_comparator kw, update_expr = kw_update_expr kw,
      dunder_name = fn_name (kw_fget kw), dunder_doc = fn_doc (kw_fget kw),
      other_dict = fn_dict (kw_fget kw)\<rparr>"

text \<open>The constructor call \<^verbatim>\<open>hybrid_property(**kw)\<close>: a new object in the store.\<close>

definition new_hybrid_property ::
  "('i, 's) init_kwargs \<Rightarrow> ('i, 's) heap \<Rightarrow> ref \<times> ('i, 's) heap" where
  "new_hybrid_property kw hp = (length hp, hp @ [hybrid_property_init kw])"

subsection \<open>Value mode: set and delete\<close>

text \<open>\<^verbatim>\<open>hybrid_property.__set__\<close>.\<close>

definition hp_set :: "('i, 's) heap \<Rightarrow> ref \<Rightarrow> 'i \<Rightarrow> pyobj \<Rightarrow> (unit, 'i, 's) run" where
  "hp_set hp self instance v =
     (case fset (hp ! self) of
        None \<Rightarrow> raise_run (AttributeError ''can't set attribute'')
      | Some f \<Rightarrow> invoke (Call_fset instance v) (fn_body f (instance, v)))"

text \<open>\<^verbatim>\<open>hybrid_property.__delete__\<close>.\<close>

definition hp_delete :: "('i, 's) heap \<Rightarrow> ref \<Rightarrow> 'i \<Rightarrow> (unit, 'i, 's) run" where
  "hp_delete hp self instance =
     (case fdel (hp ! self) of
        None \<Rightarrow> raise_run (AttributeError ''can't delete attribute'')
      | Some f \<Rightarrow> invoke (Call_fdel instance) (fn_body f instance))"

subsection \<open>Rebinding\<close>

text \<open>\<^verbatim>\<open>key.startswith("_")\<close>.\<close>

definition starts_with_underscore :: "string \<Rightarrow> bool" where
  "starts_with_underscore key = (case key of [] \<Rightarrow> False | c # _ \<Rightarrow> c = CHR ''_'')"

text \<open>
  The dictionary \<^verbatim>\<open>defaults\<close> of \<^verbatim>\<open>_copy\<close>: its entries under the six keywords of
  \<^verbatim>\<open>__init__\<close>, and its entries under any other key.
\<close>

record ('i, 's) copy_defaults = "('i, 's) init_kwargs" +
  other_items :: "(string \<times> pyobj) list"

text \<open>
  \<^verbatim>\<open>hybrid_property._copy\<close>. \<open>public_dict\<close> is the dictionary comprehension over
  \<^verbatim>\<open>self.__dict__\<close>: every entry whose key does not start with an underscore, so the
  six attributes and the public entries of \<open>other_dict\<close>. \<open>update_kw\<close> is
  \<^verbatim>\<open>defaults.update(**kw)\<close>, one keyword at a time. \<open>hybrid_property_call\<close> is the
  call \<^verbatim>\<open>type(self)(**defaults)\<close>: \<^verbatim>\<open>__init__\<close> declares the six keywords and no
  \<^verbatim>\<open>**kwargs\<close>, so Python raises \<^verbatim>\<open>TypeError\<close> for an entry under any other key
  (the error names the keyword) and no object is made; otherwise the new object is
  constructed.
\<close>

definition public_dict :: "('i, 's) hybrid_property \<Rightarrow> ('i, 's) copy_defaults" where
  "public_dict h =
     \<lparr>kw_fget = fget h, kw_fset = fset h, kw_fdel = fdel h, kw_expr = expr h,
      kw_custom_comparator = custom_comparator h, kw_update_expr = update_expr h,
      other_items = filter (\<lambda>item. \<not> starts_with_underscore (fst item)) (other_dict h)\<rparr>"

datatype ('i, 's) kwarg =
    Kw_fget "('i receiver, pyobj, 's) pyfunc"
  | Kw_fset "('i \<times> pyobj, unit, 's) pyfunc option"
  | Kw_fdel "('i, unit, 's) pyfunc option"
  | Kw_expr "(pyclass, pyobj, 's) pyfunc option"
  | Kw_custom_comparator "(pyclass, comparator_obj, 's) pyfunc option"
  | Kw_update_expr "(pyclass \<times> pyobj, (pyobj \<times> pyobj) list, 's) pyfunc option"

fun update_kw :: "('i, 's) kwarg \<Rightarrow> ('i, 's) copy_defaults \<Rightarrow> ('i, 's) copy_defaults" where
  "update_kw (Kw_fget f) d = d\<lparr>kw_fget := f\<rparr>"
| "update_kw (Kw_fset f) d = d\<lparr>kw_fset := f\<rparr>"
| "update_kw (Kw_fdel f) d = d\<lparr>kw_fdel := f\<rparr>"
| "update_kw (Kw_expr f) d = d\<lparr>kw_expr := f\<rparr>"
| "update_kw (Kw_custom_comparator f) d = d\<lparr>kw_custom_comparator := f\<rparr>"
| "update_kw (Kw_update_expr f) d = d\<lparr>kw_update_expr := f\<rparr>"

definition hybrid_property_call ::
  "('i, 's) copy_defaults \<Rightarrow> ('i, 's) heap \<Rightarrow> exn + ref \<times> ('i, 's) heap" where
  "hybrid_property_call d hp =
     (case other_items d of
        [] \<Rightarrow>
          Inr (new_hybrid_property
                 \<lparr>kw_fget = kw_fget d, kw_fset = kw_fset d, kw_fdel = kw_fdel d,
                  kw_expr = kw_expr d, kw_custom_comparator = kw_custom_comparator d,
                  kw_update_expr = kw_update_expr d\<rparr> hp)
      | item # _ \<Rightarrow> Inl (TypeError (fst item)))"

definition hp_copy ::
  "('i, 's) heap \<Rightarrow> ref \<Rightarrow> ('i, 's) kwarg list \<Rightarrow> exn + ref \<times> ('i, 's) heap" where
  "hp_copy hp self kw =
     (let defaults = public_dict (hp ! self);
          defaults = fold update_kw kw defaults
      in hybrid_property_call defaults hp)"

text \<open>\<^verbatim>\<open>hybrid_property.overrides\<close> returns \<^verbatim>\<open>self\<close>.\<close>

definition hp_overrides :: "('i, 's) heap \<Rightarrow> ref \<Rightarrow> ref" where
  "hp_overrides hp self = self"

text \<open>The six modifying decorators.\<close>

definition hp_getter ::
  "('i, 's) heap \<Rightarrow> ref \<Rightarrow> ('i receiver, pyobj, 's) pyfunc \<Rightarrow> exn + ref \<times> ('i, 's) heap" where
  "hp_getter hp self f = hp_copy hp self [Kw_fget f]"

definition hp_setter ::
  "('i, 's) heap \<Rightarrow> ref \<Rightarrow> ('i \<times> pyobj, unit, 's) pyfunc \<Rightarrow> exn + ref \<times> ('i, 's) heap" where
  "hp_setter hp self f = hp_copy hp self [Kw_fset (Some f)]"

definition hp_deleter ::
  "('i, 's) heap \<Rightarrow> ref \<Rightarrow> ('i, unit, 's) pyfunc \<Rightarrow> exn + ref \<times> ('i, 's) heap" where
  "hp_deleter hp self f = hp_copy hp self [Kw_fdel (Some f)]"

definition hp_expression ::
  "('i, 's) heap \<Rightarrow> ref \<Rightarrow> (pyclass, pyobj, 's) pyfunc \<Rightarrow> exn + ref \<times> ('i, 's) heap" where
  "hp_expression hp self f = hp_copy hp self [Kw_expr (Some f)]"

definition hp_comparator ::
  "('i, 's) heap \<Rightarrow> ref \<Rightarrow> (pyclass, comparator_obj, 's) pyfunc \<Rightarrow> exn + ref \<times> ('i, 's) heap" where
  "hp_comparator hp self comparator = hp_copy hp self [Kw_custom_comparator (Some comparator)]"

definition hp_update_expression ::
  "('i, 's) heap \<Rightarrow> ref \<Rightarrow> (pyclass \<times> pyobj, (pyobj \<times> pyobj) list, 's) pyfunc
     \<Rightarrow> exn + ref \<times> ('i, 's) heap" where
  "hp_update_expression hp self meth = hp_copy hp self [Kw_update_expr (Some meth)]"

subsection \<open>Expression mode\<close>

text \<open>
  The \<^verbatim>\<open>for ... else\<close> loop of \<^verbatim>\<open>expr_comparator\<close> over \<^verbatim>\<open>owner.__mro__\<close>: the
  loop breaks at the first class whose \<^verbatim>\<open>__dict__\<close> holds, under the key
  \<^verbatim>\<open>self.__name__\<close>, this very descriptor object; the \<^verbatim>\<open>else\<close> branch runs when
  the loop ends without a break.
\<close>

fun lookup_name :: "pyclass list \<Rightarrow> string \<Rightarrow> ref \<Rightarrow> attr_key" where
  "lookup_name [] nm self = UNKNOWN_ATTR_KEY"
| "lookup_name (lookup # rest) nm self =
     (case map_of (cls_dict lookup) nm of
        None \<Rightarrow> lookup_name rest nm self
      | Some m \<Rightarrow> if m = Hybrid self then Key nm else lookup_name rest nm self)"

text \<open>Python's \<^verbatim>\<open>a or b\<close> on docstrings: \<^verbatim>\<open>None\<close> and the empty string are false.\<close>

definition doc_or :: "string option \<Rightarrow> string option \<Rightarrow> string option" where
  "doc_or a b = (case a of None \<Rightarrow> b | Some d \<Rightarrow> if d = [] then b else Some d)"

text \<open>
  \<^verbatim>\<open>hybrid_property._get_comparator\<close> returns the closure \<^verbatim>\<open>expr_comparator\<close>; the
  value here is that closure, a function of the owner. The arguments of the call
  \<^verbatim>\<open>proxy_attr(...)\<close> are evaluated before it: the name, then \<^verbatim>\<open>comparator(owner)\<close>.
\<close>

definition hp_get_comparator ::
  "('i, 's) heap \<Rightarrow> ref \<Rightarrow> (pyclass, comparator_obj, 'i, 's) callable
     \<Rightarrow> pyclass \<Rightarrow> (proxy, 'i, 's) run" where
  "hp_get_comparator hp self comparator =
     (\<lambda>owner.
        let name = lookup_name (mro owner) (dunder_name (hp ! self)) self
        in bind_run (c_call comparator owner)
             (\<lambda>c. proxy_attr owner name self c
                     (doc_or (c_doc comparator) (dunder_doc (hp ! self)))))"

text \<open>
  \<^verbatim>\<open>hybrid_property._get_expr\<close>: the closure \<^verbatim>\<open>_expr\<close> builds the
  \<^verbatim>\<open>ExprComparator\<close> from what \<^verbatim>\<open>expr(cls)\<close> returns, as it is returned;
  \<^verbatim>\<open>update_wrapper(_expr, expr)\<close> gives it the name and docstring of \<^verbatim>\<open>expr\<close>.
\<close>

definition hp_get_expr ::
  "('i, 's) heap \<Rightarrow> ref \<Rightarrow> (pyclass, pyobj, 'i, 's) callable \<Rightarrow> pyclass \<Rightarrow> (proxy, 'i, 's) run" where
  "hp_get_expr hp self expr_arg =
     hp_get_comparator hp self
       \<lparr>c_name = c_name expr_arg, c_doc = c_doc expr_arg,
        c_call = (\<lambda>cls_arg. bind_run (c_call expr_arg cls_arg)
                    (\<lambda>e. return_run
                       (Default \<lparr>expression = e, cls = cls_arg, hybrid = self\<rparr>)))\<rparr>"

text \<open>The getter used as an expression callable:
  \<^verbatim>\<open>cast(_HybridExprCallableType[_T], self.fget)\<close>.\<close>

definition cast_fget :: "('i receiver, pyobj, 's) pyfunc \<Rightarrow> (pyclass, pyobj, 'i, 's) callable" where
  "cast_fget f = \<lparr>c_name = fn_name f, c_doc = fn_doc f,
                  c_call = (\<lambda>c. invoke (Call_fget (Class c)) (fn_body f (Class c)))\<rparr>"

text \<open>
  \<^verbatim>\<open>hybrid_property._expr_comparator\<close>, a memoized property whose value is a closure
  over the owner. The memo is the entry \<^verbatim>\<open>_expr_comparator\<close> of \<^verbatim>\<open>self.__dict__\<close>;
  the closure is a function of the descriptor's attributes alone and building it calls no
  attached callable, so the embedding builds it at each access.
\<close>

definition hp_expr_comparator :: "('i, 's) heap \<Rightarrow> ref \<Rightarrow> pyclass \<Rightarrow> (proxy, 'i, 's) run" where
  "hp_expr_comparator hp self =
     (case custom_comparator (hp ! self) of
        Some cc \<Rightarrow> hp_get_comparator hp self (traced Call_custom_comparator cc)
      | None \<Rightarrow>
          (case expr (hp ! self) of
             Some e \<Rightarrow> hp_get_expr hp self (traced Call_expr e)
           | None \<Rightarrow> hp_get_expr hp self (cast_fget (fget (hp ! self)))))"

subsection \<open>The descriptor's get\<close>

text \<open>What \<^verbatim>\<open>__get__\<close> returns: the descriptor itself, the class-level proxy, or the
  getter's value.\<close>

datatype get_result = Descriptor ref | ClassLevel proxy | Value pyobj

text \<open>\<^verbatim>\<open>hybrid_property.__get__\<close>.\<close>

definition hp_get ::
  "('i, 's) heap \<Rightarrow> ref \<Rightarrow> 'i option \<Rightarrow> pyclass option \<Rightarrow> (get_result, 'i, 's) run" where
  "hp_get hp self instance owner =
     (case owner of
        None \<Rightarrow> return_run (Descriptor self)
      | Some ow \<Rightarrow>
          (case instance of
             None \<Rightarrow> bind_run (hp_expr_comparator hp self ow) (\<lambda>p. return_run (ClassLevel p))
           | Some i \<Rightarrow>
               bind_run (invoke (Call_fget (Instance i)) (fn_body (fget (hp ! self)) (Instance i)))
                 (\<lambda>v. return_run (Value v))))"

section \<open>ExprComparator: bulk update and operators\<close>

text \<open>
  \<^verbatim>\<open>ExprComparator._bulk_update_tuples\<close>. The mapped attribute's own
  \<^verbatim>\<open>_bulk_update_tuples\<close> belongs to \<^verbatim>\<open>QueryableAttribute\<close>, which the module
  imports; it is the parameter \<open>attr_bulk_update_tuples\<close>.
\<close>

definition ExprComparator_bulk_update_tuples ::
  "(pyobj \<Rightarrow> pyobj \<Rightarrow> 's \<Rightarrow> (exn + (pyobj \<times> pyobj) list) \<times> 's)
     \<Rightarrow> ('i, 's) heap \<Rightarrow> ExprComparator \<Rightarrow> pyobj \<Rightarrow> ((pyobj \<times> pyobj) list, 'i, 's) run" where
  "ExprComparator_bulk_update_tuples attr_bulk_update_tuples hp self v =
     (if is_QueryableAttribute (expression self) then
        invoke (Call_attr_bulk_update_tuples (expression self) v)
          (attr_bulk_update_tuples (expression self) v)
      else
        (case update_expr (hp ! hybrid self) of
           Some u \<Rightarrow> invoke (Call_update_expr (cls self) v) (fn_body u (cls self, v))
         | None \<Rightarrow> return_run [(expression self, v)]))"



text \<open>
  Modelled from the spec: \<^verbatim>\<open>InspectionAttrInfo.info\<close>, a memoized property of the
  descriptor's base class, is imported by the module and not defined in it. The first
  read makes an empty dictionary, stores it in \<^verbatim>\<open>self.__dict__\<close> under the key
  \<^verbatim>\<open>info\<close> and returns it; a later read returns the stored value.
\<close>

definition hp_info :: "('i, 's) heap \<Rightarrow> ref \<Rightarrow> pyobj \<times> ('i, 's) heap" where
  "hp_info hp self =
     (case map_of (other_dict (hp ! self)) ''info'' of
        Some d \<Rightarrow> (d, hp)
      | None \<Rightarrow>
          (PyDict [],
           hp[self := (hp ! self)\<lparr>other_dict := other_dict (hp ! self) @ [(''info'', PyDict [])]\<rparr>]))"

text \<open>\<^verbatim>\<open>ExprComparator.info\<close> reads \<^verbatim>\<open>self.hybrid.info\<close>.\<close>

definition ExprComparator_info :: "('i, 's) heap \<Rightarrow> ExprComparator \<Rightarrow> pyobj \<times> ('i, 's) heap" where
  "ExprComparator_info hp self = hp_info hp (hybrid self)"

section \<open>Notions the properties are stated with\<close>

text \<open>The three components of a run.\<close>

definition outcome :: "(exn + 'a) \<times> 's \<times> 'i call list \<Rightarrow> exn + 'a" where
  "outcome r = fst r"

definition final_state :: "(exn + 'a) \<times> 's \<times> 'i call list \<Rightarrow> 's" where
  "final_state r = fst (snd r)"

definition calls :: "(exn + 'a) \<times> 's \<times> 'i call list \<Rightarrow> 'i call list" where
  "calls r = snd (snd r)"

text \<open>
  A class-level view built from one call \<open>ev\<close> to a callable whose result from the
  current state is \<open>res\<close>: the callable's exception if it raised; otherwise the proxy for
  the owner, under the name found in the owner's ancestry, holding the descriptor and the
  comparator \<open>wrap x\<close>, with the proxy constructor as the second and last call.
\<close>

definition class_view ::
  "('i, 's) heap \<Rightarrow> ref \<Rightarrow> pyclass \<Rightarrow> 'i call \<Rightarrow> string option \<Rightarrow> ('a \<Rightarrow> comparator_obj)
     \<Rightarrow> (exn + 'a) \<times> 's \<Rightarrow> (exn + proxy) \<times> 's \<times> 'i call list" where
  "class_view hp self ow ev d wrap res =
     (case res of
        (Inl e, s') \<Rightarrow> (Inl e, s', [ev])
      | (Inr x, s') \<Rightarrow>
          (Inr \<lparr>p_class = ow,
                p_key = lookup_name (mro ow) (dunder_name (hp ! self)) self,
                p_descriptor = self,
                p_comparator = wrap x,
                p_doc = doc_or d (dunder_doc (hp ! self))\<rparr>,
           s',
           [ev, Call_proxy_attr ow (lookup_name (mro ow) (dunder_name (hp ! self)) self) self]))"

text \<open>The default comparator \<^verbatim>\<open>ExprComparator(cls, expression, hybrid)\<close>.\<close>

definition default_comparator :: "pyclass \<Rightarrow> ref \<Rightarrow> pyobj \<Rightarrow> comparator_obj" where
  "default_comparator ow self e = Default \<lparr>expression = e, cls = ow, hybrid = self\<rparr>"

text \<open>The six rebinding operations, and a rebinding applied to a descriptor.\<close>

datatype ('i, 's) rebinding =
    Rebind_getter "('i receiver, pyobj, 's) pyfunc"
  | Rebind_setter "('i \<times> pyobj, unit, 's) pyfunc"
  | Rebind_deleter "('i, unit, 's) pyfunc"
  | Rebind_expression "(pyclass, pyobj, 's) pyfunc"
  | Rebind_comparator "(pyclass, comparator_obj, 's) pyfunc"
  | Rebind_update_expression "(pyclass \<times> pyobj, (pyobj \<times> pyobj) list, 's) pyfunc"

fun rebind ::
  "('i, 's) heap \<Rightarrow> ref \<Rightarrow> ('i, 's) rebinding \<Rightarrow> exn + ref \<times> ('i, 's) heap" where
  "rebind hp self (Rebind_getter f) = hp_getter hp self f"
| "rebind hp self (Rebind_setter f) = hp_setter hp self f"
| "rebind hp self (Rebind_deleter f) = hp_deleter hp self f"
| "rebind hp self (Rebind_expression f) = hp_expression hp self f"
| "rebind hp self (Rebind_comparator f) = hp_comparator hp self f"
| "rebind hp self (Rebind_update_expression f) = hp_update_expression hp self f"

text \<open>The store after a call that returns a new store or raises: an exception leaves
  the store as it was.\<close>

definition heap_after :: "('i, 's) heap \<Rightarrow> exn + ref \<times> ('i, 's) heap \<Rightarrow> ('i, 's) heap" where
  "heap_after hp res = (case res of Inl e \<Rightarrow> hp | Inr new \<Rightarrow> snd new)"


text \<open>The spec's words for a rebinding: the original, except for the one field replaced.\<close>

fun with_field :: "('i, 's) rebinding \<Rightarrow> ('i, 's) hybrid_property \<Rightarrow> ('i, 's) hybrid_property" where
  "with_field (Rebind_getter f) h = h\<lparr>fget := f\<rparr>"
| "with_field (Rebind_setter f) h = h\<lparr>fset := Some f\<rparr>"
| "with_field (Rebind_deleter f) h = h\<lparr>fdel := Some f\<rparr>"
| "with_field (Rebind_expression f) h = h\<lparr>expr := Some f\<rparr>"
| "with_field (Rebind_comparator f) h = h\<lparr>custom_comparator := Some f\<rparr>"
| "with_field (Rebind_update_expression f) h = h\<lparr>update_expr := Some f\<rparr>"

text \<open>
  The spec's words for a single assignable target of a bulk update: one column, or one
  mapped attribute. An expression built by an operator, or a native value, is none.
\<close>

definition spec_single_assignable_target :: "pyobj \<Rightarrow> bool" where
  "spec_single_assignable_target x =
     (case x of Column _ \<Rightarrow> True | QueryableAttribute _ _ \<Rightarrow> True | _ \<Rightarrow> False)"

section \<open>The example of the module's documentation: Interval.length\<close>

text \<open>
  The state is the pair \<open>(start, end)\<close> of the one interval; the getter computes
  \<^verbatim>\<open>self.end - self.start\<close>, on an instance as a number and on the class as an
  expression; the setter assigns \<^verbatim>\<open>self.end = self.start + value\<close>; the update
  expression returns \<^verbatim>\<open>[(cls.end, cls.start + value)]\<close>.
\<close>

definition length_fget :: "(nat receiver, pyobj, int \<times> int) pyfunc" where
  "length_fget =
     \<lparr>fn_name = ''length'', fn_doc = None, fn_dict = [],
      fn_body = (\<lambda>r s. case r of
                   Instance _ \<Rightarrow> (Inr (PyInt (snd s - fst s)), s)
                 | Class _ \<Rightarrow> (Inr (BinaryExpression (Column ''end'') ''-'' (Column ''start'')), s))\<rparr>"

definition length_fset :: "(nat \<times> pyobj, unit, int \<times> int) pyfunc" where
  "length_fset =
     \<lparr>fn_name = ''length'', fn_doc = None, fn_dict = [],
      fn_body = (\<lambda>a s. case snd a of
                   PyInt n \<Rightarrow> (Inr (), (fst s, fst s + n))
                 | _ \<Rightarrow> (Inl (Raised ''TypeError''), s))\<rparr>"

definition length_fdel :: "(nat, unit, int \<times> int) pyfunc" where
  "length_fdel =
     \<lparr>fn_name = ''length'', fn_doc = None, fn_dict = [], fn_body = (\<lambda>a s. (Inr (), (fst s, fst s)))\<rparr>"

definition length_update_expr ::
  "(pyclass \<times> pyobj, (pyobj \<times> pyobj) list, int \<times> int) pyfunc" where
  "length_update_expr =
     \<lparr>fn_name = ''length'', fn_doc = None, fn_dict = [],
      fn_body = (\<lambda>a s. (Inr [(Column ''end'', BinaryExpression (Column ''start'') ''+'' (snd a))], s))\<rparr>"

definition radius_expr :: "(pyclass, pyobj, int \<times> int) pyfunc" where
  "radius_expr =
     \<lparr>fn_name = ''length'', fn_doc = Some ''abs'', fn_dict = [],
      fn_body = (\<lambda>c s. (Inr (ClauseHolder (Column ''radius'')), s))\<rparr>"

definition word_comparator :: "(pyclass, comparator_obj, int \<times> int) pyfunc" where
  "word_comparator =
     \<lparr>fn_name = ''length'', fn_doc = None, fn_dict = [],
      fn_body = (\<lambda>c s. (Inr (Custom \<lparr>expression = Column ''word''\<rparr>), s))\<rparr>"

definition get_fget :: "(nat receiver, pyobj, int \<times> int) pyfunc" where
  "get_fget = length_fget\<lparr>fn_name := ''_get''\<rparr>"

text \<open>A getter with a docstring, and a getter on which an attribute has been set
  (\<^verbatim>\<open>length.unit = "days"\<close>).\<close>

definition documented_fget :: "(nat receiver, pyobj, int \<times> int) pyfunc" where
  "documented_fget = length_fget\<lparr>fn_doc := Some ''The length of the interval.''\<rparr>"

definition annotated_fget :: "(nat receiver, pyobj, int \<times> int) pyfunc" where
  "annotated_fget = length_fget\<lparr>fn_dict := [(''unit'', PyStr ''days'')]\<rparr>"

text \<open>
  The store after \<^verbatim>\<open>@hybrid_property\<close>, \<^verbatim>\<open>@length.setter\<close> and
  \<^verbatim>\<open>@length.update_expression\<close>: three descriptors, the last one bound in the class.
\<close>

definition interval_heap :: "(nat, int \<times> int) heap" where
  "interval_heap =
     (let (r0, hp0) = new_hybrid_property
            \<lparr>kw_fget = length_fget, kw_fset = None, kw_fdel = None, kw_expr = None,
             kw_custom_comparator = None, kw_update_expr = None\<rparr> [];
          hp1 = heap_after hp0 (hp_setter hp0 r0 length_fset);
          r1 = length hp0;
          hp2 = heap_after hp1 (hp_update_expression hp1 r1 length_update_expr)
      in hp2)"


definition Interval :: pyclass where
  "Interval =
     PyClass ''Interval''
       [(''start'', OtherMember), (''end'', OtherMember), (''length'', Hybrid 2)]
       [PyClass ''object'' [] []]"

text \<open>A subclass that declares nothing: the descriptor is found in its ancestor.\<close>

definition SubInterval :: pyclass where
  "SubInterval = PyClass ''SubInterval'' [] [Interval, PyClass ''object'' [] []]"

text \<open>
  The declaration the documentation warns about,
  \<^verbatim>\<open>length = hybrid_property(fget=_get)\<close>: the class binds the descriptor under
  \<^verbatim>\<open>length\<close>, the getter's name is \<^verbatim>\<open>_get\<close>.
\<close>

definition renamed_heap :: "(nat, int \<times> int) heap" where
  "renamed_heap =
     snd (new_hybrid_property
            \<lparr>kw_fget = get_fget, kw_fset = None, kw_fdel = None, kw_expr = None,
             kw_custom_comparator = None, kw_update_expr = None\<rparr> [])"

definition RenamedInterval :: pyclass where
  "RenamedInterval =
     PyClass ''Interval'' [(''length'', Hybrid 0)] [PyClass ''object'' [] []]"



text \<open>A mapped attribute's own translation, for the examples: the attribute's column
  receives the value.\<close>

definition column_bulk_update_tuples ::
  "pyobj \<Rightarrow> pyobj \<Rightarrow> 's \<Rightarrow> (exn + (pyobj \<times> pyobj) list) \<times> 's" where
  "column_bulk_update_tuples attr v s =
     (case clause_element attr of
        Inl e \<Rightarrow> (Inl e, s)
      | Inr c \<Rightarrow> (Inr [(c, v)], s))"

section \<open>Properties\<close>

subsection \<open>Running the combinators\<close>

lemma return_run_apply: "return_run x s = (Inr x, s, [])"
  by (simp add: return_run_def)

lemma raise_run_apply: "raise_run e s = (Inl e, s, [])"
  by (simp add: raise_run_def)

lemma invoke_apply: "invoke ev f s = (fst (f s), snd (f s), [ev])"
  by (simp add: invoke_def split: prod.splits)

lemma get_comparator_view:
  "hp_get_comparator hp self (traced ev f) ow s =
     class_view hp self ow (ev ow) (fn_doc f) id (fn_body f ow s)"
  by (cases "fn_body f ow s"; cases "fst (fn_body f ow s)")
     (simp_all add: hp_get_comparator_def traced_def class_view_def bind_run_def invoke_def
        proxy_attr_def Let_def)

lemma get_expr_view:
  "hp_get_expr hp self (traced ev f) ow s =
     class_view hp self ow (ev ow) (fn_doc f) (default_comparator ow self) (fn_body f ow s)"
  by (cases "fn_body f ow s"; cases "fst (fn_body f ow s)")
     (simp_all add: hp_get_expr_def hp_get_comparator_def traced_def class_view_def bind_run_def
        invoke_def proxy_attr_def return_run_def default_comparator_def Let_def)

lemma get_expr_cast_view:
  "hp_get_expr hp self (cast_fget f) ow s =
     class_view hp self ow (Call_fget (Class ow)) (fn_doc f) (default_comparator ow self)
       (fn_body f (Class ow) s)"
  by (cases "fn_body f (Class ow) s"; cases "fst (fn_body f (Class ow) s)")
     (simp_all add: hp_get_expr_def hp_get_comparator_def cast_fget_def class_view_def
        bind_run_def invoke_def proxy_attr_def return_run_def default_comparator_def Let_def)

lemma calls_class_view:
  "set (calls (class_view hp self ow ev d wrap res))
     \<subseteq> {ev, Call_proxy_attr ow (lookup_name (mro ow) (dunder_name (hp ! self)) self) self}"
  by (cases res; cases "fst res") (auto simp: class_view_def calls_def)

lemma first_call_class_view:
  "hd (calls (class_view hp self ow ev d wrap res)) = ev"
  by (cases res; cases "fst res") (auto simp: class_view_def calls_def)

lemma hp_copy_apply:
  "hp_copy hp self kw = hybrid_property_call (fold update_kw kw (public_dict (hp ! self))) hp"
  by (simp add: hp_copy_def Let_def)

lemma example_fn_dict:
  "fn_dict length_fget = []" "fn_dict get_fget = []" "fn_dict documented_fget = []"
  "fn_dict annotated_fget = [(''unit'', PyStr ''days'')]"
  by (simp_all add: length_fget_def get_fget_def documented_fget_def annotated_fget_def)

lemmas copy_defs =
  hp_copy_apply hybrid_property_call_def new_hybrid_property_def hybrid_property_init_def
  public_dict_def heap_after_def starts_with_underscore_def example_fn_dict

lemma interval_heap_eq:
  "interval_heap =
     [\<lparr>fget = length_fget, fset = None, fdel = None, expr = None, custom_comparator = None,
       update_expr = None, dunder_name = ''length'', dunder_doc = None, other_dict = []\<rparr>,
      \<lparr>fget = length_fget, fset = Some length_fset, fdel = None, expr = None,
       custom_comparator = None, update_expr = None, dunder_name = ''length'',
       dunder_doc = None, other_dict = []\<rparr>,
      \<lparr>fget = length_fget, fset = Some length_fset, fdel = None, expr = None,
       custom_comparator = None, update_expr = Some length_update_expr,
       dunder_name = ''length'', dunder_doc = None, other_dict = []\<rparr>]"
  by (simp add: interval_heap_def hp_setter_def hp_update_expression_def copy_defs
      length_fget_def)

subsection \<open>The descriptor's get\<close>

text \<open>
  Claim C1. \<^verbatim>\<open>__get__\<close> dispatches on the shape of the access. With no owner it
  returns the descriptor itself, whatever the instance, and calls nothing. On the owning
  class with no instance it returns the class-level view \<open>hp_expr_comparator\<close> builds
  for that class: same outcome, same final state, same calls. On an instance it returns
  what the getter returned for that instance (or the exception the getter raised), leaves
  the state the getter left, and the getter's call is the only call made: no expression
  builder, comparator or proxy constructor runs.
\<close>

theorem get_dispatch:
  "hp_get hp self instance None s = (Inr (Descriptor self), s, [])
   \<and> hp_get hp self None (Some ow) s =
       (map_sum id ClassLevel (outcome (hp_expr_comparator hp self ow s)),
        final_state (hp_expr_comparator hp self ow s),
        calls (hp_expr_comparator hp self ow s))
   \<and> hp_get hp self (Some i) (Some ow) s =
       (map_sum id Value (fst (fn_body (fget (hp ! self)) (Instance i) s)),
        snd (fn_body (fget (hp ! self)) (Instance i) s),
        [Call_fget (Instance i)])"
proof (intro conjI)
  show "hp_get hp self instance None s = (Inr (Descriptor self), s, [])"
    by (simp add: hp_get_def return_run_def)
  show "hp_get hp self None (Some ow) s =
       (map_sum id ClassLevel (outcome (hp_expr_comparator hp self ow s)),
        final_state (hp_expr_comparator hp self ow s),
        calls (hp_expr_comparator hp self ow s))"
    by (cases "hp_expr_comparator hp self ow s"; cases "fst (hp_expr_comparator hp self ow s)")
       (simp_all add: hp_get_def bind_run_def return_run_def outcome_def final_state_def calls_def)
  show "hp_get hp self (Some i) (Some ow) s =
       (map_sum id Value (fst (fn_body (fget (hp ! self)) (Instance i) s)),
        snd (fn_body (fget (hp ! self)) (Instance i) s),
        [Call_fget (Instance i)])"
    by (cases "fn_body (fget (hp ! self)) (Instance i) s";
        cases "fst (fn_body (fget (hp ! self)) (Instance i) s)")
       (simp_all add: hp_get_def bind_run_def invoke_def return_run_def)
qed

theorem get_dispatch_witness:
  "hp_get interval_heap 2 (Some 0) None (5, 10) = (Inr (Descriptor 2), (5, 10), [])
   \<and> hp_get interval_heap 2 (Some 0) (Some Interval) (5, 10)
       = (Inr (Value (PyInt 5)), (5, 10), [Call_fget (Instance 0)])"
  using get_dispatch [of interval_heap 2 "Some 0" "(5, 10)" Interval 0]
  by (simp add: interval_heap_eq length_fget_def)

subsection \<open>The class-level view\<close>

text \<open>
  Claim C2. Building the class-level view follows a fixed priority. With a custom
  comparator attached, the view is built from one call of it on the owning class. With
  none, and an expression builder attached, it is built from one call of the builder on
  the owning class, wrapped in the default comparator. Only with neither is the getter
  called with the owning class itself, and that call is then the first call made. When a
  custom comparator or an expression builder is attached the getter is not called at
  all, so in particular not with the class.
\<close>

theorem expr_comparator_priority:
  "(\<forall>cc. custom_comparator (hp ! self) = Some cc \<longrightarrow>
      hp_expr_comparator hp self ow s =
        class_view hp self ow (Call_custom_comparator ow) (fn_doc cc) id (fn_body cc ow s))
   \<and> (\<forall>e. custom_comparator (hp ! self) = None \<and> expr (hp ! self) = Some e \<longrightarrow>
      hp_expr_comparator hp self ow s =
        class_view hp self ow (Call_expr ow) (fn_doc e) (default_comparator ow self)
          (fn_body e ow s))
   \<and> (custom_comparator (hp ! self) = None \<and> expr (hp ! self) = None \<longrightarrow>
      hp_expr_comparator hp self ow s =
        class_view hp self ow (Call_fget (Class ow)) (fn_doc (fget (hp ! self)))
          (default_comparator ow self) (fn_body (fget (hp ! self)) (Class ow) s)
      \<and> hd (calls (hp_expr_comparator hp self ow s)) = Call_fget (Class ow))
   \<and> (custom_comparator (hp ! self) \<noteq> None \<or> expr (hp ! self) \<noteq> None \<longrightarrow>
      (\<forall>r. Call_fget r \<notin> set (calls (hp_expr_comparator hp self ow s))))"
proof (intro conjI allI impI)
  fix cc assume "custom_comparator (hp ! self) = Some cc"
  then show "hp_expr_comparator hp self ow s =
        class_view hp self ow (Call_custom_comparator ow) (fn_doc cc) id (fn_body cc ow s)"
    by (simp add: hp_expr_comparator_def get_comparator_view)
next
  fix e assume "custom_comparator (hp ! self) = None \<and> expr (hp ! self) = Some e"
  then show "hp_expr_comparator hp self ow s =
        class_view hp self ow (Call_expr ow) (fn_doc e) (default_comparator ow self)
          (fn_body e ow s)"
    by (simp add: hp_expr_comparator_def get_expr_view)
next
  assume a: "custom_comparator (hp ! self) = None \<and> expr (hp ! self) = None"
  then show v: "hp_expr_comparator hp self ow s =
        class_view hp self ow (Call_fget (Class ow)) (fn_doc (fget (hp ! self)))
          (default_comparator ow self) (fn_body (fget (hp ! self)) (Class ow) s)"
    by (simp add: hp_expr_comparator_def get_expr_cast_view)
  show "hd (calls (hp_expr_comparator hp self ow s)) = Call_fget (Class ow)"
    by (simp only: v first_call_class_view)
next
  fix r
  assume a: "custom_comparator (hp ! self) \<noteq> None \<or> expr (hp ! self) \<noteq> None"
  show "Call_fget r \<notin> set (calls (hp_expr_comparator hp self ow s))"
  proof (cases "custom_comparator (hp ! self)")
    case (Some cc)
    then have "hp_expr_comparator hp self ow s =
        class_view hp self ow (Call_custom_comparator ow) (fn_doc cc) id (fn_body cc ow s)"
      by (simp add: hp_expr_comparator_def get_comparator_view)
    then show ?thesis
      using calls_class_view [of hp self ow "Call_custom_comparator ow" "fn_doc cc" id "fn_body cc ow s"]
      by auto
  next
    case None
    with a obtain e where e: "expr (hp ! self) = Some e" by auto
    with None have "hp_expr_comparator hp self ow s =
        class_view hp self ow (Call_expr ow) (fn_doc e) (default_comparator ow self)
          (fn_body e ow s)"
      by (simp add: hp_expr_comparator_def get_expr_view)
    then show ?thesis
      using calls_class_view [of hp self ow "Call_expr ow" "fn_doc e" "default_comparator ow self" "fn_body e ow s"]
      by auto
  qed
qed

theorem expr_comparator_priority_witness:
  "hp_expr_comparator interval_heap 2 Interval (5, 10) =
     (Inr \<lparr>p_class = Interval, p_key = Key ''length'', p_descriptor = 2,
           p_comparator = Default \<lparr>expression = BinaryExpression (Column ''end'') ''-'' (Column ''start''),
                                   cls = Interval, hybrid = 2\<rparr>,
           p_doc = None\<rparr>,
      (5, 10), [Call_fget (Class Interval), Call_proxy_attr Interval (Key ''length'') 2])
   \<and> calls (hp_expr_comparator (heap_after interval_heap (hp_expression interval_heap 2 radius_expr)) 3 Interval (5, 10))
       = [Call_expr Interval, Call_proxy_attr Interval UNKNOWN_ATTR_KEY 3]
   \<and> calls (hp_expr_comparator
         (heap_after (heap_after interval_heap (hp_expression interval_heap 2 radius_expr))
           (hp_comparator (heap_after interval_heap (hp_expression interval_heap 2 radius_expr)) 3
              word_comparator))
         4 Interval (5, 10))
       = [Call_custom_comparator Interval, Call_proxy_attr Interval UNKNOWN_ATTR_KEY 4]"
proof (intro conjI)
  have h2: "custom_comparator (interval_heap ! 2) = None \<and> expr (interval_heap ! 2) = None"
    by (simp add: interval_heap_eq)
  from expr_comparator_priority [of interval_heap 2 Interval "(5, 10)"] h2
  show "hp_expr_comparator interval_heap 2 Interval (5, 10) =
     (Inr \<lparr>p_class = Interval, p_key = Key ''length'', p_descriptor = 2,
           p_comparator = Default \<lparr>expression = BinaryExpression (Column ''end'') ''-'' (Column ''start''),
                                   cls = Interval, hybrid = 2\<rparr>,
           p_doc = None\<rparr>,
      (5, 10), [Call_fget (Class Interval), Call_proxy_attr Interval (Key ''length'') 2])"
    by (simp add: interval_heap_eq class_view_def length_fget_def default_comparator_def
        doc_or_def mro_def Interval_def)
next
  let ?hp = "heap_after interval_heap (hp_expression interval_heap 2 radius_expr)"
  have h3: "custom_comparator (?hp ! 3) = None \<and> expr (?hp ! 3) = Some radius_expr"
    by (simp add: interval_heap_eq hp_expression_def copy_defs)
  have n3: "dunder_name (?hp ! 3) = ''length''"
    by (simp add: interval_heap_eq hp_expression_def copy_defs length_fget_def)
  from expr_comparator_priority [of ?hp 3 Interval "(5, 10)"] h3
  have "hp_expr_comparator ?hp 3 Interval (5, 10) =
        class_view ?hp 3 Interval (Call_expr Interval) (fn_doc radius_expr)
          (default_comparator Interval 3) (fn_body radius_expr Interval (5, 10))"
    by blast
  then show "calls (hp_expr_comparator ?hp 3 Interval (5, 10))
       = [Call_expr Interval, Call_proxy_attr Interval UNKNOWN_ATTR_KEY 3]"
    by (simp add: n3 class_view_def calls_def radius_expr_def mro_def Interval_def)
next
  let ?hp = "heap_after (heap_after interval_heap (hp_expression interval_heap 2 radius_expr))
           (hp_comparator (heap_after interval_heap (hp_expression interval_heap 2 radius_expr)) 3
              word_comparator)"
  have h4: "custom_comparator (?hp ! 4) = Some word_comparator"
    by (simp add: interval_heap_eq hp_expression_def hp_comparator_def copy_defs)
  have n4: "dunder_name (?hp ! 4) = ''length''"
    by (simp add: interval_heap_eq hp_expression_def hp_comparator_def copy_defs
        length_fget_def)
  from expr_comparator_priority [of ?hp 4 Interval "(5, 10)"] h4
  have "hp_expr_comparator ?hp 4 Interval (5, 10) =
        class_view ?hp 4 Interval (Call_custom_comparator Interval) (fn_doc word_comparator) id
          (fn_body word_comparator Interval (5, 10))"
    by blast
  then show "calls (hp_expr_comparator ?hp 4 Interval (5, 10))
       = [Call_custom_comparator Interval, Call_proxy_attr Interval UNKNOWN_ATTR_KEY 4]"
    by (simp add: n4 class_view_def calls_def word_comparator_def mro_def Interval_def)
qed

subsection \<open>Set and delete\<close>

text \<open>
  Claim C5. \<^verbatim>\<open>__set__\<close> with no setter attached raises
  \<^verbatim>\<open>AttributeError("can't set attribute")\<close> (the spec's AttributeUnsettable), the
  state unchanged and nothing called; with a setter attached its outcome, final state and
  single call are the setter's, called with the instance and the value. The descriptor's
  own failure (that error, with no call made) happens if and only if no setter is
  attached. \<^verbatim>\<open>__delete__\<close> is the same with the deleter and
  \<^verbatim>\<open>AttributeError("can't delete attribute")\<close> (the spec's AttributeUndeletable).
\<close>

theorem set_delete_errors:
  "(fset (hp ! self) = None \<longrightarrow>
      hp_set hp self i v s = (Inl (AttributeError ''can't set attribute''), s, []))
   \<and> (\<forall>f. fset (hp ! self) = Some f \<longrightarrow>
      hp_set hp self i v s = (fst (fn_body f (i, v) s), snd (fn_body f (i, v) s), [Call_fset i v]))
   \<and> ((\<exists>s'. hp_set hp self i v s = (Inl (AttributeError ''can't set attribute''), s', []))
        = (fset (hp ! self) = None))
   \<and> (fdel (hp ! self) = None \<longrightarrow>
      hp_delete hp self i s = (Inl (AttributeError ''can't delete attribute''), s, []))
   \<and> (\<forall>f. fdel (hp ! self) = Some f \<longrightarrow>
      hp_delete hp self i s = (fst (fn_body f i s), snd (fn_body f i s), [Call_fdel i]))
   \<and> ((\<exists>s'. hp_delete hp self i s = (Inl (AttributeError ''can't delete attribute''), s', []))
        = (fdel (hp ! self) = None))"
  by (auto simp: hp_set_def hp_delete_def raise_run_apply invoke_apply split: option.splits)

theorem set_delete_errors_witness:
  "hp_set interval_heap 0 0 (PyInt 12) (5, 10) = (Inl (AttributeError ''can't set attribute''), (5, 10), [])
   \<and> hp_set interval_heap 2 0 (PyInt 12) (5, 10) = (Inr (), (5, 17), [Call_fset 0 (PyInt 12)])
   \<and> hp_delete interval_heap 2 0 (5, 10) = (Inl (AttributeError ''can't delete attribute''), (5, 10), [])
   \<and> hp_delete (heap_after interval_heap (hp_deleter interval_heap 2 length_fdel)) 3 0 (5, 10) = (Inr (), (5, 5), [Call_fdel 0])"
proof -
  let ?hp = "heap_after interval_heap (hp_deleter interval_heap 2 length_fdel)"
  have a: "fset (interval_heap ! 0) = None" "fset (interval_heap ! 2) = Some length_fset"
    "fdel (interval_heap ! 2) = None"
    by (simp_all add: interval_heap_eq)
  have b: "fdel (?hp ! 3) = Some length_fdel"
    by (simp add: interval_heap_eq hp_deleter_def copy_defs)
  show ?thesis
    using set_delete_errors [of interval_heap 0 0 "PyInt 12" "(5, 10)"]
      set_delete_errors [of interval_heap 2 0 "PyInt 12" "(5, 10)"]
      set_delete_errors [of ?hp 3 0 "PyInt 12" "(5, 10)"] a b
    by (simp add: length_fset_def length_fdel_def)
qed

subsection \<open>The expression adapter\<close>

text \<open>
  Claim C10, as amended. \<^verbatim>\<open>Comparator.__clause_element__\<close> has two cases and no
  check at run time: for a value exposing \<^verbatim>\<open>__clause_element__\<close> it returns what
  that call returns, whatever it is; for every other value it returns the value itself,
  unwrapped. Both assertions of the source are for the type checker only
  (\<^verbatim>\<open>TYPE_CHECKING\<close> is false when the program runs), so no assertion ever fails.
\<close>

theorem clause_element_unchecked:
  "Comparator_clause_element self =
     (if is_has_clause_element (expression self) then clause_element (expression self)
      else Inr (expression self))"
  by (simp add: Comparator_clause_element_def TYPE_CHECKING_def Let_def split: sum.splits)


theorem clause_element_unchecked_witness:
  "Comparator_clause_element \<lparr>expression = QueryableAttribute ''start'' (Column ''start'')\<rparr>
     = Inr (Column ''start'')"
  using clause_element_unchecked [of "\<lparr>expression = QueryableAttribute ''start'' (Column ''start'')\<rparr>"]
  by simp

theorem clause_element_counterexample:
  "Comparator_clause_element \<lparr>expression = ClauseHolder (PyStr ''Trucks'')\<rparr> = Inr (PyStr ''Trucks'')
   \<and> \<not> is_ColumnElement (PyStr ''Trucks'')
   \<and> Comparator_clause_element \<lparr>expression = PyInt 5\<rparr> = Inr (PyInt 5)
   \<and> \<not> is_ColumnElement (PyInt 5)
   \<and> Comparator_clause_element \<lparr>expression = PyInt 5\<rparr> \<noteq> Inr (BindParameter (PyInt 5))"
  by (simp add: Comparator_clause_element_def TYPE_CHECKING_def)

subsection \<open>Bulk update\<close>

text \<open>
  Claim C3. \<^verbatim>\<open>ExprComparator._bulk_update_tuples\<close> resolves in this order. (a) When
  the wrapped expression is a \<^verbatim>\<open>QueryableAttribute\<close>, the run is that attribute's own
  translation of the value, and the hybrid's update expression is not called, attached
  or not. (b) Otherwise, when the hybrid has an update expression, the run is that
  callable's on the owning class and the value: its outcome verbatim, its final state,
  its single call. (c) Otherwise the result is the single pair of the wrapped expression
  and the value, with the state unchanged and nothing called.
\<close>

theorem bulk_update_resolution:
  "(is_QueryableAttribute (expression c) \<longrightarrow>
      ExprComparator_bulk_update_tuples attr hp c v s =
        (fst (attr (expression c) v s), snd (attr (expression c) v s),
         [Call_attr_bulk_update_tuples (expression c) v])
      \<and> Call_update_expr (cls c) v \<notin> set (calls (ExprComparator_bulk_update_tuples attr hp c v s)))
   \<and> (\<forall>u. \<not> is_QueryableAttribute (expression c) \<and> update_expr (hp ! hybrid c) = Some u \<longrightarrow>
      ExprComparator_bulk_update_tuples attr hp c v s =
        (fst (fn_body u (cls c, v) s), snd (fn_body u (cls c, v) s),
         [Call_update_expr (cls c) v]))
   \<and> (\<not> is_QueryableAttribute (expression c) \<and> update_expr (hp ! hybrid c) = None \<longrightarrow>
      ExprComparator_bulk_update_tuples attr hp c v s = (Inr [(expression c, v)], s, []))"
  by (simp add: ExprComparator_bulk_update_tuples_def invoke_apply return_run_apply calls_def)

theorem bulk_update_resolution_witness:
  "ExprComparator_bulk_update_tuples column_bulk_update_tuples interval_heap
      \<lparr>expression = QueryableAttribute ''start'' (Column ''start''), cls = Interval, hybrid = 2\<rparr>
      (PyInt 10) (5, 10)
     = (Inr [(Column ''start'', PyInt 10)], (5, 10),
        [Call_attr_bulk_update_tuples (QueryableAttribute ''start'' (Column ''start'')) (PyInt 10)])
   \<and> ExprComparator_bulk_update_tuples column_bulk_update_tuples interval_heap
      \<lparr>expression = BinaryExpression (Column ''end'') ''-'' (Column ''start''), cls = Interval,
       hybrid = 2\<rparr> (PyInt 25) (5, 10)
     = (Inr [(Column ''end'', BinaryExpression (Column ''start'') ''+'' (PyInt 25))], (5, 10),
        [Call_update_expr Interval (PyInt 25)])
   \<and> ExprComparator_bulk_update_tuples column_bulk_update_tuples interval_heap
      \<lparr>expression = Column ''end'', cls = Interval, hybrid = 0\<rparr> (PyInt 25) (5, 10)
     = (Inr [(Column ''end'', PyInt 25)], (5, 10), [])"
proof -
  have u: "update_expr (interval_heap ! 2) = Some length_update_expr"
    "update_expr (interval_heap ! 0) = None"
    by (simp_all add: interval_heap_eq)
  show ?thesis
    using bulk_update_resolution [of
        "\<lparr>expression = QueryableAttribute ''start'' (Column ''start''), cls = Interval, hybrid = 2\<rparr>"
        column_bulk_update_tuples interval_heap "PyInt 10" "(5, 10)"]
      bulk_update_resolution [of
        "\<lparr>expression = BinaryExpression (Column ''end'') ''-'' (Column ''start''), cls = Interval,
          hybrid = 2\<rparr>"
        column_bulk_update_tuples interval_heap "PyInt 25" "(5, 10)"]
      bulk_update_resolution [of
        "\<lparr>expression = Column ''end'', cls = Interval, hybrid = 0\<rparr>"
        column_bulk_update_tuples interval_heap "PyInt 25" "(5, 10)"] u
    by (simp add: column_bulk_update_tuples_def length_update_expr_def)
qed

text \<open>
  Claim C9, as amended. Bulk assignment on a hybrid with no update expression attached,
  whose wrapped expression is not a \<^verbatim>\<open>QueryableAttribute\<close>, does not fail: it returns
  the single pair of the wrapped expression and the value, whatever the expression is,
  with the state unchanged and nothing called. The method raises no exception of its own:
  when it fails, the exception is the one raised by the callable it delegated to (the
  mapped attribute's translation, or the attached update expression).
\<close>

theorem bulk_update_passes_through:
  "(\<not> is_QueryableAttribute (expression c) \<and> update_expr (hp ! hybrid c) = None \<longrightarrow>
      outcome (ExprComparator_bulk_update_tuples attr hp c v s) = Inr [(expression c, v)]
      \<and> final_state (ExprComparator_bulk_update_tuples attr hp c v s) = s
      \<and> calls (ExprComparator_bulk_update_tuples attr hp c v s) = [])
   \<and> (\<forall>e. outcome (ExprComparator_bulk_update_tuples attr hp c v s) = Inl e \<longrightarrow>
        (is_QueryableAttribute (expression c) \<and> fst (attr (expression c) v s) = Inl e)
        \<or> (\<exists>u. update_expr (hp ! hybrid c) = Some u \<and> fst (fn_body u (cls c, v) s) = Inl e))"
  by (auto simp: ExprComparator_bulk_update_tuples_def invoke_apply return_run_apply
      outcome_def final_state_def calls_def split: option.splits)

theorem bulk_update_passes_through_witness:
  "outcome (ExprComparator_bulk_update_tuples column_bulk_update_tuples interval_heap
      \<lparr>expression = PyStr ''not a column'', cls = Interval, hybrid = 1\<rparr> (PyInt 25) (5, 10))
     = Inr [(PyStr ''not a column'', PyInt 25)]"
proof -
  have u: "update_expr (interval_heap ! 1) = None"
    by (simp add: interval_heap_eq)
  show ?thesis
    using bulk_update_passes_through [of
        "\<lparr>expression = PyStr ''not a column'', cls = Interval, hybrid = 1\<rparr>"
        interval_heap column_bulk_update_tuples "PyInt 25" "(5, 10)"] u
    by simp
qed

theorem bulk_update_ambiguous_counterexample:
  "update_expr (interval_heap ! 0) = None
   \<and> \<not> spec_single_assignable_target (BinaryExpression (Column ''end'') ''-'' (Column ''start''))
   \<and> ExprComparator_bulk_update_tuples column_bulk_update_tuples interval_heap
        \<lparr>expression = BinaryExpression (Column ''end'') ''-'' (Column ''start''), cls = Interval,
         hybrid = 0\<rparr> (PyInt 25) (5, 10)
       = (Inr [(BinaryExpression (Column ''end'') ''-'' (Column ''start''), PyInt 25)], (5, 10), [])"
  by (simp add: interval_heap_eq ExprComparator_bulk_update_tuples_def return_run_apply
      spec_single_assignable_target_def)

subsection \<open>Operators\<close>





subsection \<open>Rebinding\<close>

lemma rebind_apply:
  "rebind hp self r =
     (case other_items (public_dict (hp ! self)) of
        [] \<Rightarrow>
          Inr (length hp,
               hp @ [hybrid_property_init
                       \<lparr>kw_fget = fget (with_field r (hp ! self)),
                        kw_fset = fset (with_field r (hp ! self)),
                        kw_fdel = fdel (with_field r (hp ! self)),
                        kw_expr = expr (with_field r (hp ! self)),
                        kw_custom_comparator = custom_comparator (with_field r (hp ! self)),
                        kw_update_expr = update_expr (with_field r (hp ! self))\<rparr>])
      | item # _ \<Rightarrow> Inl (TypeError (fst item)))"
  by (cases r)
     (simp_all add: hp_getter_def hp_setter_def hp_deleter_def hp_expression_def
        hp_comparator_def hp_update_expression_def hp_copy_apply hybrid_property_call_def
        new_hybrid_property_def public_dict_def split: list.splits)






text \<open>
  Where \<^verbatim>\<open>self.__dict__\<close> holds a public entry that \<^verbatim>\<open>__init__\<close> does not
  declare, the call \<^verbatim>\<open>type(self)(**defaults)\<close> raises \<^verbatim>\<open>TypeError\<close> naming the
  first such entry, and the store is left as it was. A read of \<^verbatim>\<open>info\<close> stores such
  an entry, and so does a getter that carries a function attribute.
\<close>

lemma copy_raises_on_undeclared_entry:
  "other_items (public_dict (hp ! self)) = item # rest \<Longrightarrow>
   rebind hp self r = Inl (TypeError (fst item)) \<and> heap_after hp (rebind hp self r) = hp"
  by (simp add: rebind_apply heap_after_def)

lemma setter_after_info_raises:
  "(\<exists>new. hp_setter interval_heap 2 length_fset = Inr new)
   \<and> hp_setter (snd (ExprComparator_info interval_heap
                       \<lparr>expression = Column ''end'', cls = Interval, hybrid = 2\<rparr>))
        2 length_fset
      = Inl (TypeError ''info'')"
  by (simp add: hp_setter_def copy_defs ExprComparator_info_def hp_info_def interval_heap_eq)




text \<open>
  Claim C7, as amended. For a descriptor as \<^verbatim>\<open>__init__\<close> leaves it (its
  \<^verbatim>\<open>__name__\<close> is its getter's), the descriptor derived by \<^verbatim>\<open>setter\<close>,
  \<^verbatim>\<open>deleter\<close>, \<^verbatim>\<open>expression\<close>, \<^verbatim>\<open>comparator\<close> or
  \<^verbatim>\<open>update_expression\<close> has the original's \<^verbatim>\<open>__name__\<close>; the one derived by
  \<^verbatim>\<open>getter\<close> has the \<^verbatim>\<open>__name__\<close> of the new getter function. In each case the
  derived descriptor's \<^verbatim>\<open>__name__\<close> is again its getter's. A descriptor is derived
  whenever the original's \<^verbatim>\<open>__dict__\<close> holds no public entry besides the six
  attributes.
\<close>

theorem rebinding_name:
  "dunder_name (hp ! self) = fn_name (fget (hp ! self)) \<longrightarrow>
     (\<forall>r' hp'. rebind hp self r = Inr (r', hp') \<longrightarrow>
        dunder_name (hp' ! r')
          = (case r of Rebind_getter f \<Rightarrow> fn_name f | _ \<Rightarrow> dunder_name (hp ! self))
        \<and> dunder_name (hp' ! r') = fn_name (fget (hp' ! r')))
     \<and> (other_items (public_dict (hp ! self)) = [] \<longrightarrow>
          (\<exists>r' hp'. rebind hp self r = Inr (r', hp')))"
  by (cases r)
     (auto simp: rebind_apply hybrid_property_init_def split: list.splits)

theorem rebinding_name_witness:
  "(\<exists>hp'. rebind interval_heap 2 (Rebind_expression radius_expr) = Inr (3, hp')
        \<and> dunder_name (hp' ! 3) = ''length'')
   \<and> (\<exists>hp'. rebind interval_heap 2 (Rebind_getter length_fget) = Inr (3, hp')
        \<and> dunder_name (hp' ! 3) = ''length'')"
proof -
  have n: "dunder_name (interval_heap ! 2) = fn_name (fget (interval_heap ! 2))"
    "dunder_name (interval_heap ! 2) = ''length''"
    by (simp_all add: interval_heap_eq length_fget_def)
  have l: "\<exists>hp'. rebind interval_heap 2 (Rebind_expression radius_expr) = Inr (3, hp')"
    "\<exists>hp'. rebind interval_heap 2 (Rebind_getter length_fget) = Inr (3, hp')"
    by (simp_all add: rebind_apply interval_heap_eq public_dict_def)
  from l obtain hp1 hp2 where
    r1: "rebind interval_heap 2 (Rebind_expression radius_expr) = Inr (3, hp1)"
    and r2: "rebind interval_heap 2 (Rebind_getter length_fget) = Inr (3, hp2)"
    by blast
  from rebinding_name [of interval_heap 2 "Rebind_expression radius_expr"] n r1
  have a: "dunder_name (hp1 ! 3) = ''length''"
    by (simp del: rebind.simps)
  from rebinding_name [of interval_heap 2 "Rebind_getter length_fget"] n r2
  have b: "dunder_name (hp2 ! 3) = ''length''"
    by (simp add: length_fget_def del: rebind.simps)
  from r1 r2 a b show ?thesis by blast
qed

theorem rebinding_name_counterexample:
  "dunder_name (interval_heap ! 2) = ''length''
   \<and> (\<exists>hp'. hp_getter interval_heap 2 get_fget = Inr (3, hp')
          \<and> dunder_name (hp' ! 3) = ''_get''
          \<and> dunder_name (hp' ! 3) \<noteq> dunder_name (interval_heap ! 2))"
  by (simp add: hp_getter_def copy_defs interval_heap_eq get_fget_def length_fget_def)

subsection \<open>The published name\<close>

lemma lookup_name_eq:
  "lookup_name cs nm self =
     (if \<exists>lookup \<in> set cs. map_of (cls_dict lookup) nm = Some (Hybrid self) then Key nm
      else UNKNOWN_ATTR_KEY)"
  by (induction cs) (auto split: option.splits)

lemma class_view_key:
  "class_view hp self ow ev d wrap res = (Inr p, s', tr) \<Longrightarrow>
   p_key p = lookup_name (mro ow) (dunder_name (hp ! self)) self"
  by (cases res; cases "fst res") (auto simp: class_view_def)

lemma expr_comparator_key:
  assumes "hp_expr_comparator hp self ow s = (Inr p, s', tr)"
  shows "p_key p = lookup_name (mro ow) (dunder_name (hp ! self)) self"
proof (cases "custom_comparator (hp ! self)")
  case (Some cc)
  with assms show ?thesis
    by (simp add: hp_expr_comparator_def get_comparator_view) (erule class_view_key)
next
  case None
  show ?thesis
  proof (cases "expr (hp ! self)")
    case (Some e)
    with None assms show ?thesis
      by (simp add: hp_expr_comparator_def get_expr_view) (erule class_view_key)
  next
    case inner: None
    with None assms show ?thesis
      by (simp add: hp_expr_comparator_def get_expr_cast_view) (erule class_view_key)
  qed
qed

text \<open>
  Claim C8, as amended. Whenever the class-level view is built, the proxy's name is the
  descriptor's own \<^verbatim>\<open>__name__\<close> if some class of the owner's method resolution order
  holds, in its \<^verbatim>\<open>__dict__\<close> under that very key, an entry that is this descriptor
  object; otherwise it is the sentinel \<^verbatim>\<open>_UNKNOWN_ATTR_KEY\<close>. An entry that is this
  descriptor under any other key is not looked at.
\<close>

theorem published_name:
  "\<forall>p s' tr. hp_expr_comparator hp self ow s = (Inr p, s', tr) \<longrightarrow>
     p_key p =
       (if \<exists>lookup \<in> set (mro ow).
             map_of (cls_dict lookup) (dunder_name (hp ! self)) = Some (Hybrid self)
        then Key (dunder_name (hp ! self)) else UNKNOWN_ATTR_KEY)"
  using expr_comparator_key [of hp self ow s] by (simp add: lookup_name_eq)

theorem published_name_witness:
  "map_sum id p_key (outcome (hp_expr_comparator interval_heap 2 SubInterval (5, 10)))
     = Inr (Key ''length'')
   \<and> map_sum id p_key (outcome (hp_expr_comparator interval_heap 1 SubInterval (5, 10)))
     = Inr UNKNOWN_ATTR_KEY"
proof -
  have r2: "\<exists>p s' tr. hp_expr_comparator interval_heap 2 SubInterval (5, 10) = (Inr p, s', tr)"
    by (simp add: hp_expr_comparator_def get_expr_cast_view interval_heap_eq class_view_def
        length_fget_def)
  have r1: "\<exists>p s' tr. hp_expr_comparator interval_heap 1 SubInterval (5, 10) = (Inr p, s', tr)"
    by (simp add: hp_expr_comparator_def get_expr_cast_view interval_heap_eq class_view_def
        length_fget_def)
  have n: "dunder_name (interval_heap ! 2) = ''length''" "dunder_name (interval_heap ! 1) = ''length''"
    by (simp_all add: interval_heap_eq)
  from r2 obtain p s' tr where p: "hp_expr_comparator interval_heap 2 SubInterval (5, 10) = (Inr p, s', tr)"
    by blast
  from r1 obtain q t' tq where q: "hp_expr_comparator interval_heap 1 SubInterval (5, 10) = (Inr q, t', tq)"
    by blast
  from published_name [of interval_heap 2 SubInterval "(5, 10)"] p n
  have "p_key p = Key ''length''"
    by (simp add: mro_def SubInterval_def Interval_def)
  moreover
  from published_name [of interval_heap 1 SubInterval "(5, 10)"] q n
  have "p_key q = UNKNOWN_ATTR_KEY"
    by (simp add: mro_def SubInterval_def Interval_def)
  ultimately show ?thesis
    using p q by (simp add: outcome_def)
qed

theorem published_name_counterexample:
  "RenamedInterval \<in> set (mro RenamedInterval)
   \<and> map_of (cls_dict RenamedInterval) ''length'' = Some (Hybrid 0)
   \<and> dunder_name (renamed_heap ! 0) = ''_get''
   \<and> map_sum id p_key (outcome (hp_expr_comparator renamed_heap 0 RenamedInterval (5, 10)))
       = Inr UNKNOWN_ATTR_KEY"
  by (simp add: mro_def RenamedInterval_def renamed_heap_def new_hybrid_property_def
      hybrid_property_init_def hp_expr_comparator_def get_expr_cast_view class_view_def
      get_fget_def length_fget_def outcome_def)

end
